theory Spec2Isabelle
  imports Complex_Main "HOL-Library.Word" "HOL-Library.Char_ord" "HOL-Library.List_Lexorder"
    "HOL-Library.Product_Lexorder"
begin

section \<open>Values shared by the crawler (fetcher.go)\<close>

text \<open>
  Go's \<open>error\<close> values are carried by their message. A \<open>time.Time\<close> is its Unix time in
  nanoseconds, a \<open>time.Duration\<close> and an \<open>int\<close> (64-bit platform) are 64-bit two's
  complement words read with \<open>sint\<close>, a \<open>[]byte\<close> is a \<open>string\<close>.
\<close>

datatype error = Err string

fun Error :: "error \<Rightarrow> string" where
  "Error (Err m) = m"

type_synonym Time = int
type_synonym Duration = "64 word"
type_synonym bytes = string

definition Second :: Duration where
  "Second = 1000000000"

text \<open>\<open>NotYetCrawled = time.Unix(0, 0)\<close>, set in \<open>init\<close>.\<close>

definition NotYetCrawled :: Time where
  "NotYetCrawled = 0"

text \<open>The zero \<open>time.Time\<close> (January 1, year 1) as Unix nanoseconds.\<close>

definition zero_Time :: Time where
  "zero_Time = - 62135596800000000000"

text \<open>The fields of \<open>net/url.URL\<close>.\<close>

record net_url =
  Scheme :: string
  Opaque :: string
  Host :: string
  Path :: string
  RawQuery :: string
  Fragment :: string

text \<open>
  \<open>walker.URL\<close> embeds a \<open>*url.URL\<close> (field \<open>URL_ptr\<close>, \<open>None\<close> for nil) and
  carries \<open>LastCrawled\<close>.
\<close>

record URL =
  URL_ptr :: "net_url option"
  LastCrawled :: Time

text \<open>
  \<open>url.Parse\<close> of the standard library is a parameter \<open>parse\<close>: \<open>Inl err\<close> stands for
  the Go pair \<open>(nil, err)\<close> and \<open>Inr u\<close> for \<open>(u, nil)\<close>. \<open>ParseURL\<close> returns a pointer
  and an error; the pointer is an option (\<open>None\<close> is nil).
\<close>

definition ParseURL :: "(string \<Rightarrow> error + net_url) \<Rightarrow> string \<Rightarrow> URL option \<times> error option" where
  "ParseURL parse ref =
     (let (u, err) = (case parse ref of Inl e \<Rightarrow> (None, Some e) | Inr v \<Rightarrow> (Some v, None))
      in (Some \<lparr>URL_ptr = u, LastCrawled = NotYetCrawled\<rparr>, err))"

definition HasSuffix :: "string \<Rightarrow> string \<Rightarrow> bool" where
  "HasSuffix s suffix =
     (length suffix \<le> length s \<and> drop (length s - length suffix) s = suffix)"

definition HasPrefix :: "string \<Rightarrow> string \<Rightarrow> bool" where
  "HasPrefix s p = (length p \<le> length s \<and> take (length p) s = p)"

definition CreateURL ::
  "(string \<Rightarrow> error + net_url) \<Rightarrow> string \<Rightarrow> string \<Rightarrow> string \<Rightarrow> string \<Rightarrow> Time
     \<Rightarrow> URL option \<times> error option" where
  "CreateURL parse domain subdomain path protocol lastcrawled =
     (let subdomain = (if subdomain \<noteq> [] \<and> \<not> HasSuffix subdomain ''.''
                       then subdomain @ ''.'' else subdomain);
          path = (if path \<noteq> [] \<and> \<not> HasPrefix path ''/'' then ''/'' @ path else path);
          ref = protocol @ ''://'' @ subdomain @ domain @ path
      in case ParseURL parse ref of
           (u, Some err) \<Rightarrow> (None, Some err)
         | (None, None) \<Rightarrow> (None, None)
         | (Some u, None) \<Rightarrow> (Some (u\<lparr>LastCrawled := lastcrawled\<rparr>), None))"

section \<open>Configuration (config.go)\<close>

text \<open>
  A \<open>float64\<close> as far as comparisons see it: a number, an infinity, or NaN, with which
  every comparison is false.
\<close>

datatype float64 = Finite real | PosInf | NegInf | NaN

fun f64_less :: "float64 \<Rightarrow> float64 \<Rightarrow> bool" where
  "f64_less NaN y = False"
| "f64_less x NaN = False"
| "f64_less (Finite a) (Finite b) = (a < b)"
| "f64_less (Finite a) PosInf = True"
| "f64_less (Finite a) NegInf = False"
| "f64_less PosInf y = False"
| "f64_less NegInf NegInf = False"
| "f64_less NegInf y = True"

record DispatcherConfig =
  MaxLinksPerSegment :: "64 word"
  RefreshPercentage :: float64
  NumConcurrentDomains :: "64 word"
  MinLinkRefreshTime :: string

record CassandraConfig =
  Hosts :: "string list"
  Keyspace :: string
  ReplicationFactor :: "64 word"
  Timeout :: string
  CQLVersion :: string
  ProtoVersion :: "64 word"
  Port :: "64 word"
  NumConns :: "64 word"
  NumStreams :: "64 word"
  DiscoverHosts :: bool
  MaxPreparedStmts :: "64 word"

definition default_Cassandra :: CassandraConfig where
  "default_Cassandra =
     \<lparr>Hosts = [''localhost''], Keyspace = ''walker'', ReplicationFactor = 3, Timeout = ''2s'',
      CQLVersion = ''3.0.0'', ProtoVersion = 2, Port = 9042, NumConns = 2, NumStreams = 128,
      DiscoverHosts = False, MaxPreparedStmts = 1000\<rparr>"

record ConsoleConfig =
  Port :: "64 word"
  TemplateDirectory :: string
  PublicFolder :: string

definition default_Console :: ConsoleConfig where
  "default_Console =
     \<lparr>Port = 3000, TemplateDirectory = ''console/templates'',
      PublicFolder = ''console/public''\<rparr>"

record WalkerConfig =
  AddNewDomains :: bool
  AddedDomainsCacheSize :: "64 word"
  MaxDNSCacheEntries :: "64 word"
  UserAgent :: string
  AcceptFormats :: "string list"
  AcceptProtocols :: "string list"
  MaxHTTPContentSizeBytes :: "64 word"
  IgnoreTags :: "string list"
  MaxLinksPerPage :: "64 word"
  NumSimultaneousFetchers :: "64 word"
  BlacklistPrivateIPs :: bool
  HttpTimeout :: string
  HonorMetaNoindex :: bool
  HonorMetaNofollow :: bool
  ExcludeLinkPatterns :: "string list"
  IncludeLinkPatterns :: "string list"
  DefaultCrawlDelay :: string
  MaxCrawlDelay :: string
  PurgeSidList :: "string list"
  Dispatcher :: DispatcherConfig
  Cassandra :: CassandraConfig
  Console :: ConsoleConfig

text \<open>\<open>SetDefaultConfig\<close> assigns every field, so the result is one value.\<close>

definition SetDefaultConfig :: WalkerConfig where
  "SetDefaultConfig =
     \<lparr>AddNewDomains = False,
      AddedDomainsCacheSize = 20000,
      MaxDNSCacheEntries = 20000,
      UserAgent = ''Walker (http://github.com/iParadigms/walker)'',
      AcceptFormats = [''text/html'', ''text/*;''],
      AcceptProtocols = [''http'', ''https''],
      MaxHTTPContentSizeBytes = 20 * 1024 * 1024,
      IgnoreTags = [''script'', ''img'', ''link''],
      MaxLinksPerPage = 1000,
      NumSimultaneousFetchers = 10,
      BlacklistPrivateIPs = True,
      HttpTimeout = ''30s'',
      HonorMetaNoindex = True,
      HonorMetaNofollow = False,
      ExcludeLinkPatterns = [],
      IncludeLinkPatterns = [],
      DefaultCrawlDelay = ''1s'',
      MaxCrawlDelay = ''5m'',
      PurgeSidList = [],
      Dispatcher = \<lparr>MaxLinksPerSegment = 500, RefreshPercentage = Finite 25,
                     NumConcurrentDomains = 1, MinLinkRefreshTime = ''0s''\<rparr>,
      Cassandra = default_Cassandra,
      Console = default_Console\<rparr>"

text \<open>
  What config loading calls outside config.go: the file system, the YAML decoder (which
  overlays the file on the current \<open>Config\<close> and may fail), \<open>time.ParseDuration\<close>, and
  two functions of the repository whose source is not at hand, \<open>aggregateRegex\<close> (its
  error is all that is used) and \<open>setupParseURL\<close>.
\<close>

record config_env =
  ConfigName :: string
  ReadFile :: "string \<Rightarrow> error + bytes"
  Unmarshal :: "bytes \<Rightarrow> WalkerConfig \<Rightarrow> WalkerConfig \<times> error option"
  ParseDuration :: "string \<Rightarrow> error + Duration"
  aggregateRegex :: "string list \<Rightarrow> string \<Rightarrow> error option"
  setupParseURL :: "WalkerConfig \<Rightarrow> error option"

text \<open>The duration that \<open>time.ParseDuration\<close> returns: zero with an error.\<close>

definition duration_of :: "error + Duration \<Rightarrow> Duration" where
  "duration_of r = (case r of Inl err \<Rightarrow> 0 | Inr d \<Rightarrow> d)"

definition parse_failure :: "string \<Rightarrow> error + Duration \<Rightarrow> string list" where
  "parse_failure name r =
     (case r of Inl err \<Rightarrow> [name @ '' failed to parse: '' @ Error err] | Inr d \<Rightarrow> [])"

definition regex_failure :: "error option \<Rightarrow> string list" where
  "regex_failure r = (case r of Some err \<Rightarrow> [Error err] | None \<Rightarrow> [])"

text \<open>
  \<open>assertConfigInvariants\<close>: each check appends its message to \<open>errs\<close>; the result is
  nil when \<open>errs\<close> is empty.
\<close>

definition config_errs :: "config_env \<Rightarrow> WalkerConfig \<Rightarrow> string list" where
  "config_errs env Config =
     (let dis = Dispatcher Config;
          errs = [];
          errs = errs @ (if f64_less (RefreshPercentage dis) (Finite 0)
                            \<or> f64_less (Finite 100) (RefreshPercentage dis)
                         then [''Dispatcher.RefreshPercentage must be a floating point number b/w 0 and 100'']
                         else []);
          errs = errs @ (if sint (MaxLinksPerSegment dis) < 1
                         then [''Dispatcher.MaxLinksPerSegment must be greater than 0'']
                         else []);
          errs = errs @ (if sint (NumConcurrentDomains dis) < 1
                         then [''Dispatcher.NumConcurrentDomains must be greater than 0'']
                         else []);
          errs = errs @ parse_failure ''HttpTimeout'' (ParseDuration env (HttpTimeout Config));
          errs = errs @ parse_failure ''Cassandra.Timeout''
                          (ParseDuration env (Timeout (Cassandra Config)));
          errs = errs @ regex_failure
                          (aggregateRegex env (ExcludeLinkPatterns Config) ''exclude_link_patterns'');
          errs = errs @ regex_failure
                          (aggregateRegex env (IncludeLinkPatterns Config) ''include_link_patterns'');
          errs = errs @ parse_failure ''Dispatcher.MinLinkRefreshTime''
                          (ParseDuration env (MinLinkRefreshTime (Dispatcher Config)));
          def = duration_of (ParseDuration env (DefaultCrawlDelay Config));
          errs = errs @ parse_failure ''DefaultCrawlDelay''
                          (ParseDuration env (DefaultCrawlDelay Config));
          mx = duration_of (ParseDuration env (MaxCrawlDelay Config));
          errs = errs @ parse_failure ''MaxCrawlDelay''
                          (ParseDuration env (MaxCrawlDelay Config));
          errs = errs @ (if sint mx < sint def
                         then [''Consistency problem: MaxCrawlDelay > DefaultCrawlDealy'']
                         else [])
      in errs)"

definition assertConfigInvariants :: "config_env \<Rightarrow> WalkerConfig \<Rightarrow> error option" where
  "assertConfigInvariants env Config =
     (let errs = config_errs env Config
      in if length errs > 0
         then Some (Err (''Config Error:'' @ [CHR 0x0A]
                          @ concat (map (\<lambda>e. [CHR 0x09] @ e @ [CHR 0x0A]) errs) @ [CHR 0x0A]))
         else None)"

text \<open>
  \<open>readConfig\<close> leaves a new global \<open>Config\<close> and returns an error or nil, unless
  \<open>PostConfigHooks\<close> panics on an error of \<open>setupParseURL\<close>.
\<close>

datatype load = Loaded WalkerConfig "error option" | HookPanic WalkerConfig error

text \<open>The defaults with the sequence values emptied, and the refill after decoding.\<close>

definition cleared_Config :: WalkerConfig where
  "cleared_Config =
     (let Config = SetDefaultConfig
      in Config\<lparr>AcceptFormats := [], AcceptProtocols := [], IgnoreTags := [],
                 Cassandra := (Cassandra Config)\<lparr>Hosts := []\<rparr>, PurgeSidList := []\<rparr>)"

definition refill_sequences :: "WalkerConfig \<Rightarrow> WalkerConfig" where
  "refill_sequences Config =
     (let Config = (if length (AcceptFormats Config) = 0
                    then Config\<lparr>AcceptFormats := [''text/html'', ''text/*;'']\<rparr>
                    else Config);
          Config = (if length (AcceptProtocols Config) = 0
                    then Config\<lparr>AcceptProtocols := [''http'', ''https'']\<rparr>
                    else Config);
          Config = (if length (IgnoreTags Config) = 0
                    then Config\<lparr>IgnoreTags := [''script'', ''img'', ''link'']\<rparr>
                    else Config);
          Config = (if length (Hosts (Cassandra Config)) = 0
                    then Config\<lparr>Cassandra := (Cassandra Config)\<lparr>Hosts := [''localhost'']\<rparr>\<rparr>
                    else Config);
          Config = (if length (PurgeSidList Config) = 0
                    then Config\<lparr>PurgeSidList := [''jsessionid'', ''phpsessid'', ''aspsessionid'']\<rparr>
                    else Config)
      in Config)"

definition readConfig :: "config_env \<Rightarrow> load" where
  "readConfig env =
     (let Config = cleared_Config
      in case ReadFile env (ConfigName env) of
           Inl err \<Rightarrow>
             Loaded Config (Some (Err (''Failed to read config file ('' @ ConfigName env
                                         @ ''): '' @ Error err)))
         | Inr data \<Rightarrow>
             (case Unmarshal env data Config of
                (Config, Some err) \<Rightarrow>
                  Loaded Config (Some (Err (''Failed to unmarshal yaml from config file (''
                                              @ ConfigName env @ ''): '' @ Error err)))
              | (Config, None) \<Rightarrow>
                  (let Config = refill_sequences Config;
                       err = assertConfigInvariants env Config
                   in case setupParseURL env Config of
                        Some e \<Rightarrow> HookPanic Config e
                      | None \<Rightarrow> Loaded Config err)))"

fun load_Config :: "load \<Rightarrow> WalkerConfig" where
  "load_Config (Loaded c e) = c"
| "load_Config (HookPanic c e) = c"

fun load_error :: "load \<Rightarrow> error option" where
  "load_error (Loaded c e) = e"
| "load_error (HookPanic c e) = None"

text \<open>
  The invariants as the specification lists them: the refresh percentage is within 0 and
  100, both counts are at least 1, every duration parses, both pattern lists are accepted,
  and the default crawl delay is at most the maximum.
\<close>

fun within_0_100 :: "float64 \<Rightarrow> bool" where
  "within_0_100 (Finite r) = (0 \<le> r \<and> r \<le> 100)"
| "within_0_100 x = False"

definition parses :: "config_env \<Rightarrow> string \<Rightarrow> bool" where
  "parses env s = (case ParseDuration env s of Inl err \<Rightarrow> False | Inr d \<Rightarrow> True)"

definition spec_invariants :: "config_env \<Rightarrow> WalkerConfig \<Rightarrow> bool" where
  "spec_invariants env c =
     (within_0_100 (RefreshPercentage (Dispatcher c)) \<and>
      1 \<le> sint (MaxLinksPerSegment (Dispatcher c)) \<and>
      1 \<le> sint (NumConcurrentDomains (Dispatcher c)) \<and>
      parses env (HttpTimeout c) \<and>
      parses env (Timeout (Cassandra c)) \<and>
      parses env (MinLinkRefreshTime (Dispatcher c)) \<and>
      parses env (DefaultCrawlDelay c) \<and>
      parses env (MaxCrawlDelay c) \<and>
      aggregateRegex env (ExcludeLinkPatterns c) ''exclude_link_patterns'' = None \<and>
      aggregateRegex env (IncludeLinkPatterns c) ''include_link_patterns'' = None \<and>
      sint (duration_of (ParseDuration env (DefaultCrawlDelay c)))
        \<le> sint (duration_of (ParseDuration env (MaxCrawlDelay c))))"

text \<open>
  A setting without a config file, and a configuration whose refresh percentage is NaN
  (the YAML scalar \<open>.nan\<close>).
\<close>

definition ex_ParseDuration :: "string \<Rightarrow> error + Duration" where
  "ex_ParseDuration s =
     (if s = ''0s'' then Inr 0
      else if s = ''1s'' then Inr 1000000000
      else if s = ''2s'' then Inr 2000000000
      else if s = ''30s'' then Inr 30000000000
      else if s = ''5m'' then Inr 300000000000
      else Inl (Err (''time: invalid duration '' @ s)))"

definition ex_env :: config_env where
  "ex_env =
     \<lparr>ConfigName = ''walker.yaml'',
      ReadFile = (\<lambda>p. Inl (Err (''open '' @ p @ '': no such file or directory''))),
      Unmarshal = (\<lambda>data c. (c, None)),
      ParseDuration = ex_ParseDuration,
      aggregateRegex = (\<lambda>ps name. None),
      setupParseURL = (\<lambda>c. None)\<rparr>"

definition ex_file_env :: config_env where
  "ex_file_env = ex_env\<lparr>ReadFile := (\<lambda>p. Inr ''dispatcher: {refresh_percentage: 50}''),
       Unmarshal := (\<lambda>data c. (c\<lparr>Dispatcher :=
                        (Dispatcher c)\<lparr>RefreshPercentage := Finite 50\<rparr>\<rparr>, None))\<rparr>"

definition nan_Config :: WalkerConfig where
  "nan_Config =
     SetDefaultConfig\<lparr>Dispatcher := (Dispatcher SetDefaultConfig)\<lparr>RefreshPercentage := NaN\<rparr>\<rparr>"

section \<open>The robots group and the crawl delay (fetcher.start)\<close>

text \<open>
  The robots.txt library (github.com/temoto/robotstxt.go) is outside the repository. A
  \<open>Group\<close> holds the rules of one user agent and its advertised \<open>CrawlDelay\<close>. A
  \<open>rule\<close> is an \<open>Allow\<close> or \<open>Disallow\<close> line: the path it was written with, and for
  a line with wildcards the compiled pattern (its source text and what it matches).
\<close>

record rule =
  path :: string
  allow :: bool
  pattern :: "(string \<times> (string \<Rightarrow> bool)) option"

record Group =
  rules :: "rule list"
  CrawlDelay :: Duration

text \<open>
  \<open>Group.findRule\<close>, as the library documents its matching: a rule's path is matched
  against the beginning of the argument, which is the path of a URL; the longest match
  wins; the rule for \<open>/\<close> is the weakest match and applies when nothing has matched
  yet. \<open>Group.Test(path)\<close> is the \<open>allow\<close> of the rule found, and true when there is
  none.
\<close>

fun findRule :: "string \<Rightarrow> rule list \<Rightarrow> nat \<Rightarrow> rule option \<Rightarrow> rule option" where
  "findRule p [] prefixLen ret = ret"
| "findRule p (r # rs) prefixLen ret =
     (case pattern r of
        Some (src, matches) \<Rightarrow>
          (if matches p \<and> length src > prefixLen then findRule p rs (length src) (Some r)
           else findRule p rs prefixLen ret)
      | None \<Rightarrow>
          (if path r = ''/'' \<and> prefixLen = 0 then findRule p rs 1 (Some r)
           else if HasPrefix p (path r) \<and> length (path r) > prefixLen
           then findRule p rs (length (path r)) (Some r)
           else findRule p rs prefixLen ret))"

definition Test :: "Group \<Rightarrow> string \<Rightarrow> bool" where
  "Test g p = (case findRule p (rules g) 0 None of Some r \<Rightarrow> allow r | None \<Rightarrow> True)"

text \<open>
  \<open>URL.RequestURI\<close> of net/url: the path and query of a URL, which is what the rules of
  a robots.txt are written for. A URL is disallowed by the rules of a group when \<open>Test\<close>
  of its request path is false.
\<close>

definition RequestURI :: "net_url \<Rightarrow> string" where
  "RequestURI u =
     (let result = (if Opaque u = [] then (if Path u = [] then ''/'' else Path u)
                    else Opaque u)
      in if RawQuery u \<noteq> [] then result @ ''?'' @ RawQuery u else result)"

definition spec_disallowed :: "Group \<Rightarrow> URL \<Rightarrow> bool" where
  "spec_disallowed g link =
     (case URL_ptr link of None \<Rightarrow> False | Some u \<Rightarrow> \<not> Test g (RequestURI u))"

text \<open>
  Lines 169 to 172 of \<open>fetcher.start\<close>. \<open>DefaultCrawlDelay\<close> is read there as an
  \<open>int\<close> count of seconds; \<open>int(f.robots.CrawlDelay)\<close> is the robots delay in
  nanoseconds. Both multiplications and comparisons are those of 64-bit signed integers.
\<close>

definition crawldelay_of :: "64 word \<Rightarrow> Group option \<Rightarrow> Duration" where
  "crawldelay_of dflt rb =
     (let delay = dflt * Second
      in case rb of
           None \<Rightarrow> delay
         | Some g \<Rightarrow> if sint dflt < sint (CrawlDelay g) then CrawlDelay g else delay)"


section \<open>Responses, fetch results and the collaborators of a fetcher\<close>

text \<open>
  An \<open>io.ReadCloser\<close> body: the bytes it yields and the error that ends the read, if any
  (\<open>None\<close> is a clean end of file).
\<close>

record Body =
  content :: bytes
  read_error :: "error option"

text \<open>\<open>http.Response\<close>; \<open>Header\<close> is the map from a header name to its values.\<close>

record Response =
  Status :: string
  Header :: "string \<Rightarrow> string list"
  Body :: Body

record FetchResults =
  URL :: URL
  Response :: "Response option"
  FetchError :: "error option"
  FetchTime :: Time
  ExcludedByRobots :: bool

text \<open>The configuration values that fetcher.go reads from the global \<open>Config\<close>.\<close>

record FetcherConfig =
  DefaultCrawlDelay :: "64 word"
  UserAgent :: string
  IgnoreTags :: "string list"
  MaxHTTPContentSizeBytes :: int
  MaxCrawlDelay :: Duration

text \<open>
  The tokens of the lenient HTML tokenizer. A start tag carries its name and its
  attributes in document order.
\<close>

datatype Token =
    ErrorToken
  | TextToken
  | StartTagToken string "(string \<times> string) list"
  | EndTagToken string
  | SelfClosingTagToken string "(string \<times> string) list"
  | CommentToken
  | DoctypeToken

text \<open>
  Everything outside the repository that a fetcher calls: the standard library
  (\<open>url.Parse\<close>, \<open>URL.String\<close>, \<open>http.NewRequest\<close>, \<open>http.Client.Do\<close>,
  \<open>time.Now\<close>), the charset reader and the tokenizer, the robots.txt parser, and the quit
  channel. \<open>Now\<close> and \<open>quit\<close> are indexed by the position of the link in the segment:
  \<open>quit w i\<close> says that a quit signal is pending when link \<open>i\<close> is received.
  \<open>FromResponse\<close> yields the parsed robots data as its \<open>FindGroup\<close> function,
  whose result is a pointer (\<open>None\<close> is nil).
\<close>

record world =
  Parse :: "string \<Rightarrow> error + net_url"
  String :: "net_url \<Rightarrow> string"
  NewRequest :: "string \<Rightarrow> error + string"
  Do :: "string \<Rightarrow> error + Response"
  Now :: "nat \<Rightarrow> Time"
  quit :: "nat \<Rightarrow> bool"
  NewReader :: "bytes \<Rightarrow> error + bytes"
  Tokens :: "bytes \<Rightarrow> Token list"
  FromResponse :: "Response \<Rightarrow> error + (string \<Rightarrow> Group option)"

text \<open>
  What a fetcher does to the outside, in order: datastore calls, sleeps, HTTP requests
  (request URL and User-Agent) and handler calls.
\<close>

datatype event =
    UnclaimHost string
  | ClaimNewHost
  | Sleep Duration
  | HttpDo string string
  | StoreURLFetchResults FetchResults
  | StoreParsedURL URL FetchResults
  | HandleResponse FetchResults

text \<open>A loop body either goes on to the next iteration or panics (nil dereference).\<close>

datatype outcome = Next | Panic

text \<open>\<open>u.String()\<close> through the embedded pointer: \<open>None\<close> is the nil dereference.\<close>

definition URL_String :: "world \<Rightarrow> URL \<Rightarrow> string option" where
  "URL_String w u = map_option (String w) (URL_ptr u)"

section \<open>Fetching one URL (fetcher.fetch, fetcher.fetchRobots, isHTML)\<close>

text \<open>
  \<open>fetch\<close> returns the requests it issued and the result of the call; \<open>None\<close> is the
  panic of \<open>u.String()\<close> on a nil embedded URL.
\<close>

definition fetch :: "world \<Rightarrow> FetcherConfig \<Rightarrow> URL \<Rightarrow> (event list \<times> (error + Response)) option" where
  "fetch w cfg u =
     (case URL_String w u of
        None \<Rightarrow> None
      | Some s \<Rightarrow>
          (case NewRequest w s of
             Inl err \<Rightarrow>
               Some ([], Inl (Err (''Failed to create new request object for '' @ s @ ''): ''
                                    @ Error err)))
           | Inr req \<Rightarrow> Some ([HttpDo req (UserAgent cfg)], Do w req)))"

text \<open>
  \<open>fetchRobots\<close> returns the requests issued and the new value of \<open>f.robots\<close>. Its URL
  is built with a non-nil embedded pointer, so the first branch is never taken.
\<close>

definition robots_url :: "string \<Rightarrow> URL" where
  "robots_url h =
     \<lparr>URL_ptr = Some \<lparr>Scheme = ''http'', Opaque = [], Host = h, Path = ''robots.txt'',
                       RawQuery = [], Fragment = []\<rparr>,
      LastCrawled = zero_Time\<rparr>"

definition fetchRobots :: "world \<Rightarrow> FetcherConfig \<Rightarrow> string \<Rightarrow> event list \<times> Group option" where
  "fetchRobots w cfg h =
     (let u = robots_url h
      in case fetch w cfg u of
           None \<Rightarrow> ([], None)
         | Some (reqs, Inl err) \<Rightarrow> (reqs, None)
         | Some (reqs, Inr res) \<Rightarrow>
             (case FromResponse w res of
                Inl err \<Rightarrow> (reqs, None)
              | Inr FindGroup \<Rightarrow> (reqs, FindGroup (UserAgent cfg))))"

definition isHTML :: "Response option \<Rightarrow> bool" where
  "isHTML r =
     (case r of
        None \<Rightarrow> False
      | Some res \<Rightarrow> list_ex (\<lambda>ct. HasPrefix ct ''text/html'') (Header res ''Content-Type''))"

text \<open>\<open>ioutil.ReadAll\<close> and \<open>ioutil.NopCloser(bytes.NewReader(body))\<close>.\<close>

definition ReadAll :: "Body \<Rightarrow> bytes \<times> error option" where
  "ReadAll b = (content b, read_error b)"

definition NopCloser :: "bytes \<Rightarrow> Body" where
  "NopCloser b = \<lparr>content = b, read_error = None\<rparr>"

section \<open>Link extraction (getLinks, getIncludedTags, parseAnchorAttrs)\<close>

text \<open>The map of included tags, as the list of its keys.\<close>

definition getIncludedTags :: "FetcherConfig \<Rightarrow> string list" where
  "getIncludedTags cfg =
     filter (\<lambda>t. t \<notin> set (IgnoreTags cfg))
       [''a'', ''area'', ''form'', ''frame'', ''iframe'', ''script'', ''link'', ''img'']"

text \<open>
  \<open>parseAnchorAttrs\<close> walks the attributes of the current tag with \<open>TagAttr\<close>, which
  returns an empty key and \<open>moreAttr = false\<close> when there is none left.
\<close>

fun parseAnchorAttrs :: "(string \<Rightarrow> error + net_url) \<Rightarrow> (string \<times> string) list \<Rightarrow> URL list \<Rightarrow> URL list" where
  "parseAnchorAttrs parse [] links = links"
| "parseAnchorAttrs parse ((key, val) # rest) links =
     (let links = (if key = ''href''
                   then (case ParseURL parse val of
                           (Some u, None) \<Rightarrow> links @ [u]
                         | _ \<Rightarrow> links)
                   else links);
          moreAttr = (rest \<noteq> [])
      in if \<not> moreAttr then links else parseAnchorAttrs parse rest links)"

text \<open>
  The token loop of \<open>getLinks\<close>. The tokenizer returns \<open>ErrorToken\<close> at the end of its
  input, which is also what the end of the token list stands for.
\<close>

fun getLinks_loop :: "(string \<Rightarrow> error + net_url) \<Rightarrow> string list \<Rightarrow> Token list \<Rightarrow> URL list \<Rightarrow> URL list" where
  "getLinks_loop parse tags [] links = links"
| "getLinks_loop parse tags (ErrorToken # ts) links = links"
| "getLinks_loop parse tags (StartTagToken tagName attrs # ts) links =
     (let hasAttrs = (attrs \<noteq> [])
      in if hasAttrs \<and> tagName \<in> set tags
         then getLinks_loop parse tags ts (parseAnchorAttrs parse attrs links)
         else getLinks_loop parse tags ts links)"
| "getLinks_loop parse tags (t # ts) links = getLinks_loop parse tags ts links"

definition getLinks :: "world \<Rightarrow> FetcherConfig \<Rightarrow> bytes \<Rightarrow> error + URL list" where
  "getLinks w cfg contents =
     (case NewReader w contents of
        Inl err \<Rightarrow> Inl err
      | Inr utf8Reader \<Rightarrow>
          Inr (getLinks_loop (Parse w) (getIncludedTags cfg) (Tokens w utf8Reader) []))"

text \<open>
  Link extraction as the specification words it: the start tags of the included set, their
  \<open>href\<close> attributes only, each value parsed, the unparseable ones dropped, in document
  order.
\<close>

fun spec_tag_hrefs :: "string list \<Rightarrow> Token \<Rightarrow> string list" where
  "spec_tag_hrefs tags (StartTagToken n attrs) =
     (if n \<in> set tags then map snd (filter (\<lambda>a. fst a = ''href'') attrs) else [])"
| "spec_tag_hrefs tags t = []"

definition spec_parsed :: "(string \<Rightarrow> error + net_url) \<Rightarrow> string \<Rightarrow> URL list" where
  "spec_parsed parse v =
     (case parse v of
        Inl e \<Rightarrow> []
      | Inr u \<Rightarrow> [\<lparr>URL_ptr = Some u, LastCrawled = NotYetCrawled\<rparr>])"

definition spec_links :: "(string \<Rightarrow> error + net_url) \<Rightarrow> string list \<Rightarrow> Token list \<Rightarrow> URL list" where
  "spec_links parse tags ts =
     concat (map (spec_parsed parse)
               (concat (map (spec_tag_hrefs tags) (takeWhile (\<lambda>t. t \<noteq> ErrorToken) ts))))"

section \<open>The loop over the links of a claimed host (fetcher.start)\<close>

definition new_FetchResults :: "URL \<Rightarrow> FetchResults" where
  "new_FetchResults link =
     \<lparr>URL = link, Response = None, FetchError = None, FetchTime = zero_Time,
      ExcludedByRobots = False\<rparr>"

text \<open>
  \<open>f.robots != nil && !f.robots.Test(link.String())\<close>: \<open>None\<close> is the panic of
  \<open>link.String()\<close>, which is only evaluated when there is a robots group.
\<close>

definition robots_excludes :: "world \<Rightarrow> Group option \<Rightarrow> URL \<Rightarrow> bool option" where
  "robots_excludes w rb link =
     (case rb of
        None \<Rightarrow> Some False
      | Some g \<Rightarrow> map_option (\<lambda>s. \<not> Test g s) (URL_String w link))"

text \<open>
  Lines 220 to 225: an outlink with an empty scheme or host takes the one of the link it
  was found on. \<open>None\<close> is a nil dereference (of the outlink, or of the link when one of
  its fields is needed).
\<close>

definition inherit :: "URL \<Rightarrow> URL \<Rightarrow> URL option" where
  "inherit link outlink =
     (case URL_ptr outlink of
        None \<Rightarrow> None
      | Some ou \<Rightarrow>
          (case (if Scheme ou = [] then map_option (\<lambda>l. ou\<lparr>Scheme := Scheme l\<rparr>) (URL_ptr link)
                 else Some ou) of
             None \<Rightarrow> None
           | Some ou \<Rightarrow>
               (case (if Host ou = [] then map_option (\<lambda>l. ou\<lparr>Host := Host l\<rparr>) (URL_ptr link)
                      else Some ou) of
                  None \<Rightarrow> None
                | Some ou \<Rightarrow> Some (outlink\<lparr>URL_ptr := Some ou\<rparr>))))"

text \<open>Lines 219 to 228: the loop over the outlinks of a page.\<close>

fun store_outlinks :: "URL \<Rightarrow> FetchResults \<Rightarrow> URL list \<Rightarrow> event list \<times> outcome" where
  "store_outlinks link fr [] = ([], Next)"
| "store_outlinks link fr (outlink # outlinks) =
     (case inherit link outlink of
        None \<Rightarrow> ([], Panic)
      | Some ol \<Rightarrow>
          (let (es, out) = store_outlinks link fr outlinks
           in (StoreParsedURL ol fr # es, out)))"

text \<open>
  The body of the loop over \<open>LinksForHost\<close> (lines 175 to 236) for the link at position
  \<open>i\<close>. The quit channel is not read here. The handler and the datastore are given the
  pointer \<open>fr\<close>; they are taken to leave its fields as they are (the mock handler
  re-buffers the body to the same bytes).
\<close>

definition process_link ::
  "world \<Rightarrow> FetcherConfig \<Rightarrow> Group option \<Rightarrow> Duration \<Rightarrow> nat \<Rightarrow> URL \<Rightarrow> event list \<times> outcome" where
  "process_link w cfg rb delay i link =
     (let fr = new_FetchResults link
      in case robots_excludes w rb link of
           None \<Rightarrow> ([], Panic)
         | Some True \<Rightarrow> ([StoreURLFetchResults (fr\<lparr>ExcludedByRobots := True\<rparr>)], Next)
         | Some False \<Rightarrow>
             (let fr = fr\<lparr>FetchTime := Now w i\<rparr>
              in case fetch w cfg link of
                   None \<Rightarrow> ([Sleep delay], Panic)
                 | Some (reqs, Inl err) \<Rightarrow>
                     (Sleep delay # reqs @ [StoreURLFetchResults (fr\<lparr>FetchError := Some err\<rparr>)],
                      Next)
                 | Some (reqs, Inr res) \<Rightarrow>
                     (let fr = fr\<lparr>Response := Some res\<rparr>
                      in if isHTML (Response fr)
                         then (case ReadAll (Body res) of
                                 (body, Some err) \<Rightarrow>
                                   (Sleep delay # reqs
                                      @ [StoreURLFetchResults (fr\<lparr>FetchError := Some err\<rparr>)],
                                    Next)
                               | (body, None) \<Rightarrow>
                                   (let fr = fr\<lparr>Response := Some (res\<lparr>Body := NopCloser body\<rparr>)\<rparr>
                                    in case getLinks w cfg body of
                                         Inl err \<Rightarrow>
                                           (Sleep delay # reqs
                                              @ [HandleResponse fr, StoreURLFetchResults fr],
                                            Next)
                                       | Inr outlinks \<Rightarrow>
                                           (case store_outlinks link fr outlinks of
                                              (stored, Panic) \<Rightarrow>
                                                (Sleep delay # reqs @ stored, Panic)
                                            | (stored, Next) \<Rightarrow>
                                                (Sleep delay # reqs @ stored
                                                   @ [HandleResponse fr, StoreURLFetchResults fr],
                                                 Next))))
                         else (Sleep delay # reqs @ [HandleResponse fr, StoreURLFetchResults fr],
                               Next))))"

fun crawl_links ::
  "world \<Rightarrow> FetcherConfig \<Rightarrow> Group option \<Rightarrow> Duration \<Rightarrow> nat \<Rightarrow> URL list \<Rightarrow> event list \<times> outcome" where
  "crawl_links w cfg rb delay i [] = ([], Next)"
| "crawl_links w cfg rb delay i (link # links) =
     (case process_link w cfg rb delay i link of
        (es, Panic) \<Rightarrow> (es, Panic)
      | (es, Next) \<Rightarrow>
          (let (es', out) = crawl_links w cfg rb delay (Suc i) links
           in (es @ es', out)))"

text \<open>
  The fields of a \<open>fetcher\<close> that the loop writes, and one pass through the outer
  \<open>for\<close> of \<open>fetcher.start\<close>: \<open>quit_pending\<close> is what the \<open>select\<close> at the top finds,
  \<open>claimed\<close> what \<open>ClaimNewHost\<close> returns and \<open>links\<close> what \<open>LinksForHost\<close>
  yields.
\<close>

record fetcher =
  host :: string
  robots :: "Group option"
  crawldelay :: Duration

datatype control = Return | Continue | Panicked

definition start_body ::
  "world \<Rightarrow> FetcherConfig \<Rightarrow> bool \<Rightarrow> string \<Rightarrow> URL list \<Rightarrow> fetcher \<Rightarrow> event list \<times> fetcher \<times> control" where
  "start_body w cfg quit_pending claimed links f =
     (let unclaim = (if host f \<noteq> [] then [UnclaimHost (host f)] else [])
      in if quit_pending then (unclaim, f, Return)
         else (let f = f\<lparr>host := claimed\<rparr>
               in if host f = [] then (unclaim @ [ClaimNewHost, Sleep Second], f, Continue)
                  else (let (reqs, r) = fetchRobots w cfg (host f);
                            f = f\<lparr>robots := r\<rparr>;
                            f = f\<lparr>crawldelay := crawldelay_of (DefaultCrawlDelay cfg) (robots f)\<rparr>;
                            (es, out) = crawl_links w cfg (robots f) (crawldelay f) 0 links
                        in (unclaim @ [ClaimNewHost] @ reqs @ es, f,
                            case out of Next \<Rightarrow> Continue | Panic \<Rightarrow> Panicked))))"

text \<open>The requests and the stored results in a list of events.\<close>

fun requests_of :: "event list \<Rightarrow> string list" where
  "requests_of [] = []"
| "requests_of (HttpDo req agent # es) = req # requests_of es"
| "requests_of (e # es) = requests_of es"

fun stored_results :: "event list \<Rightarrow> FetchResults list" where
  "stored_results [] = []"
| "stored_results (StoreURLFetchResults fr # es) = fr # stored_results es"
| "stored_results (e # es) = stored_results es"

fun stored_outlinks :: "event list \<Rightarrow> URL list" where
  "stored_outlinks [] = []"
| "stored_outlinks (StoreParsedURL u fr # es) = u # stored_outlinks es"
| "stored_outlinks (e # es) = stored_outlinks es"

fun handled :: "event list \<Rightarrow> FetchResults list" where
  "handled [] = []"
| "handled (HandleResponse fr # es) = fr # handled es"
| "handled (e # es) = handled es"

fun sleeps :: "event list \<Rightarrow> Duration list" where
  "sleeps [] = []"
| "sleeps (Sleep d # es) = d # sleeps es"
| "sleeps (e # es) = sleeps es"

text \<open>Outlink resolution as the specification words it, for a referring URL \<open>l\<close>.\<close>

definition spec_resolved :: "net_url \<Rightarrow> URL \<Rightarrow> URL" where
  "spec_resolved l outlink =
     outlink\<lparr>URL_ptr :=
       map_option (\<lambda>ou. ou\<lparr>Scheme := (if Scheme ou = [] then Scheme l else Scheme ou),
                            Host := (if Host ou = [] then Host l else Host ou)\<rparr>)
         (URL_ptr outlink)\<rparr>"

text \<open>The bytes of the response body that a fetch result carries.\<close>

definition delivered_bytes :: "FetchResults \<Rightarrow> bytes" where
  "delivered_bytes fr = (case Response fr of None \<Rightarrow> [] | Some r \<Rightarrow> content (Body r))"

section \<open>A small concrete setting\<close>

text \<open>
  A host \<open>test.com\<close> whose robots.txt cannot be fetched and whose pages are HTML with
  one link beyond the 16th byte; a toy URL parser that rejects references starting with
  a percent sign and reads everything else but one absolute URL as a path.
\<close>

definition ex_parse :: "string \<Rightarrow> error + net_url" where
  "ex_parse s =
     (if HasPrefix s ''%'' then Inl (Err ''invalid URL escape'')
      else if s = ''http://b.org/x''
      then Inr \<lparr>Scheme = ''http'', Opaque = [], Host = ''b.org'', Path = ''/x'', RawQuery = [],
                Fragment = []\<rparr>
      else Inr \<lparr>Scheme = [], Opaque = [], Host = [], Path = s, RawQuery = [], Fragment = []\<rparr>)"

definition ex_body :: bytes where
  "ex_body = ''<html><body><p>x</p><a href=/n>n</a>''"

definition ex_page :: Response where
  "ex_page =
     \<lparr>Status = ''200 OK'',
      Header = (\<lambda>k. if k = ''Content-Type'' then [''text/html; charset=utf-8''] else []),
      Body = \<lparr>content = ex_body, read_error = None\<rparr>\<rparr>"

definition ex_tokens :: "bytes \<Rightarrow> Token list" where
  "ex_tokens b =
     (if b = ex_body
      then [StartTagToken ''html'' [], StartTagToken ''body'' [], StartTagToken ''p'' [],
            TextToken, EndTagToken ''p'', StartTagToken ''a'' [(''href'', ''/n'')], TextToken,
            EndTagToken ''a'', ErrorToken]
      else [ErrorToken])"

text \<open>
  The group of a robots.txt with \<open>Crawl-delay: 600\<close> and \<open>Disallow: /private\<close>, and
  the group of one with \<open>Disallow: /\<close>.
\<close>

definition ex_group :: Group where
  "ex_group =
     \<lparr>rules = [\<lparr>path = ''/private'', allow = False, pattern = None\<rparr>],
      CrawlDelay = 600 * Second\<rparr>"

definition ex_root_group :: Group where
  "ex_root_group =
     \<lparr>rules = [\<lparr>path = ''/'', allow = False, pattern = None\<rparr>], CrawlDelay = 0\<rparr>"

definition ex_world :: world where
  "ex_world =
     \<lparr>Parse = ex_parse,
      String = (\<lambda>u. Scheme u @ ''://'' @ Host u
                    @ (if HasPrefix (Path u) ''/'' then Path u else ''/'' @ Path u)),
      NewRequest = Inr,
      Do = (\<lambda>req. if req = ''http://test.com/robots.txt'' then Inl (Err ''connection refused'')
                   else Inr ex_page),
      Now = (\<lambda>i. 1000 + int i),
      quit = (\<lambda>i. True),
      NewReader = Inr,
      Tokens = ex_tokens,
      FromResponse = (\<lambda>r. Inr (\<lambda>agent. Some ex_group))\<rparr>"

definition ex_cfg :: FetcherConfig where
  "ex_cfg =
     \<lparr>DefaultCrawlDelay = 1, UserAgent = ''Walker'', IgnoreTags = [''script'', ''img'', ''link''],
      MaxHTTPContentSizeBytes = 16, MaxCrawlDelay = 300 * Second\<rparr>"

definition ex_link :: "string \<Rightarrow> URL" where
  "ex_link p =
     \<lparr>URL_ptr = Some \<lparr>Scheme = ''http'', Opaque = [], Host = ''test.com'', Path = p,
                       RawQuery = [], Fragment = []\<rparr>,
      LastCrawled = NotYetCrawled\<rparr>"

section \<open>The dispatcher\<close>

text \<open>
  The source of the dispatcher (\<open>StartDispatcher\<close> and the segment selection behind it)
  is missing; only its tests, cassandra/dispatcher_test.go, are at hand. The definitions of
  this section follow sections 3, 4.1 and 6 of the specification.
\<close>

text \<open>
  Modelled from the spec: a row of the \<open>links\<close> table, which the missing dispatcher
  reads (section 6, store schema).
\<close>

record link_row =
  l_dom :: string
  l_subdom :: string
  l_path :: string
  l_proto :: string
  l_crawl_time :: Time
  l_status :: int
  l_getnow :: bool

text \<open>
  Modelled from the spec: a row of the \<open>segments\<close> table, which the missing dispatcher
  writes.
\<close>

record segment_row =
  seg_dom :: string
  seg_subdom :: string
  seg_path :: string
  seg_proto :: string
  seg_crawl_time :: Time

text \<open>
  Modelled from the spec: a row of the \<open>domain_info\<close> table, whose \<open>dispatched\<close>
  flag and statistics the missing dispatcher sets.
\<close>

record domain_info =
  di_dom :: string
  claim_token :: "string option"
  priority :: int
  dispatched :: bool
  excluded :: bool
  total_links :: nat
  uncrawled_links :: nat
  queued_links :: nat

text \<open>
  Modelled from the spec: the three tables of the link store that the missing dispatcher
  works on.
\<close>

record store =
  links_tbl :: "link_row list"
  segments_tbl :: "segment_row list"
  domain_info_tbl :: "domain_info list"

text \<open>
  Modelled from the spec: the missing dispatcher's view of a domain, the latest row of each
  of its URLs (``multiple rows per logical URL, newest row wins'').
\<close>

definition same_url :: "link_row \<Rightarrow> link_row \<Rightarrow> bool" where
  "same_url a b =
     (l_dom a = l_dom b \<and> l_subdom a = l_subdom b \<and> l_path a = l_path b
      \<and> l_proto a = l_proto b)"

definition domain_rows :: "string \<Rightarrow> link_row list \<Rightarrow> link_row list" where
  "domain_rows D rows =
     filter (\<lambda>a. l_dom a = D \<and> list_all (\<lambda>b. same_url a b \<longrightarrow> l_crawl_time b \<le> l_crawl_time a) rows)
       rows"

text \<open>
  Modelled from the spec: the three pools of the missing segment selection (section 4.1). The
  refreshable rows are sorted oldest first, ties broken by subdomain, path and scheme; the
  uncrawled rows are in path-lexicographic order.
\<close>

definition getnow_pool :: "link_row list \<Rightarrow> link_row list" where
  "getnow_pool rows = filter l_getnow rows"

definition uncrawled_pool :: "link_row list \<Rightarrow> link_row list" where
  "uncrawled_pool rows =
     sort_key (\<lambda>l. (l_subdom l, l_path l, l_proto l))
       (filter (\<lambda>l. \<not> l_getnow l \<and> l_crawl_time l = NotYetCrawled) rows)"

definition refreshable_pool :: "int \<Rightarrow> Time \<Rightarrow> link_row list \<Rightarrow> link_row list" where
  "refreshable_pool T_min now rows =
     sort_key (\<lambda>l. (l_crawl_time l, l_subdom l, l_path l, l_proto l))
       (filter (\<lambda>l. \<not> l_getnow l \<and> l_crawl_time l \<noteq> NotYetCrawled \<and> T_min \<le> now - l_crawl_time l)
          rows)"

text \<open>
  Modelled from the spec: the missing segment selection, the fill of a segment of at most
  \<open>S\<close> links (steps 1 to 5 of section 4.1), with \<open>r = RefreshPercentage / 100\<close>:
  the getnow links first, then the refresh and uncrawled quotas, each raised by the
  other's shortfall.
\<close>

definition select_segment :: "nat \<Rightarrow> real \<Rightarrow> int \<Rightarrow> Time \<Rightarrow> link_row list \<Rightarrow> link_row list" where
  "select_segment S RefreshPct T_min now rows =
     (let selected = take S (getnow_pool rows);
          remaining = S - length selected;
          refresh_target = nat \<lfloor>real remaining * (RefreshPct / 100)\<rfloor>;
          uncrawled_target = remaining - refresh_target;
          refreshable = refreshable_pool T_min now rows;
          uncrawled = uncrawled_pool rows;
          refresh_taken = min refresh_target (length refreshable);
          uncrawled_quota = uncrawled_target + (refresh_target - refresh_taken);
          uncrawled_taken = min uncrawled_quota (length uncrawled);
          refresh_quota = refresh_target + (uncrawled_quota - uncrawled_taken)
      in take S (selected @ take refresh_quota refreshable @ take uncrawled_taken uncrawled))"

text \<open>
  Modelled from the spec: the segment row that the missing dispatcher writes for a selected
  link.
\<close>

definition segment_of :: "link_row \<Rightarrow> segment_row" where
  "segment_of l =
     \<lparr>seg_dom = l_dom l, seg_subdom = l_subdom l, seg_path = l_path l, seg_proto = l_proto l,
      seg_crawl_time = l_crawl_time l\<rparr>"

text \<open>
  Modelled from the spec: what a cycle of the missing dispatcher does for one domain
  (contract and empty-segment policy of section 4.1). A domain that is
  excluded or already dispatched is skipped. Otherwise the statistics are refreshed and,
  unless the computed segment is empty, the segment is written and \<open>dispatched\<close> is set.
  The result is the new \<open>domain_info\<close> row and the segment rows written.
\<close>

definition dispatch_domain ::
  "nat \<Rightarrow> real \<Rightarrow> int \<Rightarrow> Time \<Rightarrow> link_row list \<Rightarrow> domain_info \<Rightarrow> domain_info \<times> segment_row list" where
  "dispatch_domain S RefreshPct T_min now rows d =
     (if excluded d \<or> dispatched d then (d, [])
      else (let latest = domain_rows (di_dom d) rows;
                seg = select_segment S RefreshPct T_min now latest;
                d = d\<lparr>total_links := length latest,
                       uncrawled_links :=
                         length (filter (\<lambda>l. l_crawl_time l = NotYetCrawled) latest),
                       queued_links := length seg\<rparr>
            in if seg = [] then (d, [])
               else (d\<lparr>dispatched := True\<rparr>, map segment_of seg)))"

text \<open>
  Modelled from the spec: one cycle of the missing dispatcher over all the domains of the
  store.
\<close>

definition dispatch_cycle :: "nat \<Rightarrow> real \<Rightarrow> int \<Rightarrow> Time \<Rightarrow> store \<Rightarrow> store" where
  "dispatch_cycle S RefreshPct T_min now st =
     (let results = map (dispatch_domain S RefreshPct T_min now (links_tbl st)) (domain_info_tbl st)
      in st\<lparr>domain_info_tbl := map fst results,
             segments_tbl := segments_tbl st @ concat (map snd results)\<rparr>)"

text \<open>The segment rows of a domain.\<close>

definition segment_rows_of :: "string \<Rightarrow> store \<Rightarrow> segment_row list" where
  "segment_rows_of D st = filter (\<lambda>s. seg_dom s = D) (segments_tbl st)"

text \<open>
  A store with two domains: \<open>test.com\<close> has one link, crawled an hour before the cycle,
  and \<open>b.org\<close> has one uncrawled link.
\<close>

definition ex_info :: "string \<Rightarrow> domain_info" where
  "ex_info D =
     \<lparr>di_dom = D, claim_token = None, priority = 0, dispatched = False, excluded = False,
      total_links = 0, uncrawled_links = 0, queued_links = 0\<rparr>"

definition ex_store :: store where
  "ex_store =
     \<lparr>links_tbl = [\<lparr>l_dom = ''test.com'', l_subdom = [], l_path = ''/'', l_proto = ''http'',
                 l_crawl_time = 100000, l_status = 200, l_getnow = False\<rparr>,
               \<lparr>l_dom = ''b.org'', l_subdom = [], l_path = ''/x'', l_proto = ''http'',
                 l_crawl_time = NotYetCrawled, l_status = - 1, l_getnow = False\<rparr>],
      segments_tbl = [],
      domain_info_tbl = [ex_info ''test.com'', ex_info ''b.org'']\<rparr>"

section \<open>Properties\<close>


subsection \<open>ParseURL\<close>

text \<open>
  C10. For every input string, whatever \<open>url.Parse\<close> does with it, \<open>ParseURL\<close> returns
  a non-nil wrapper whose \<open>LastCrawled\<close> is \<open>NotYetCrawled\<close>; when the parse fails, the
  wrapper's embedded URL is nil and the error is returned with it.
\<close>

theorem ParseURL_wrapper:
  "\<exists>u. fst (ParseURL parse ref) = Some u \<and> LastCrawled u = NotYetCrawled \<and>
     (\<forall>e. parse ref = Inl e \<longrightarrow> URL_ptr u = None \<and> snd (ParseURL parse ref) = Some e)"
  by (auto simp: ParseURL_def split: sum.split)

theorem ParseURL_wrapper_witness:
  "ex_parse ''%zz'' = Inl (Err ''invalid URL escape'') \<and>
   (\<exists>u. fst (ParseURL ex_parse ''%zz'') = Some u \<and> LastCrawled u = NotYetCrawled \<and>
      URL_ptr u = None \<and> snd (ParseURL ex_parse ''%zz'') = Some (Err ''invalid URL escape''))"
proof -
  have h: "ex_parse ''%zz'' = Inl (Err ''invalid URL escape'')"
    by (simp add: ex_parse_def HasPrefix_def)
  from ParseURL_wrapper [of ex_parse "''%zz''"] h show ?thesis by auto
qed

subsection \<open>The crawl delay\<close>




text \<open>
  The comparison of line 170 is between nanoseconds and a count of seconds: a robots
  delay of two seconds replaces a default of five.
\<close>

lemma crawldelay_unit_slip:
  "sint (crawldelay_of 5 (Some \<lparr>rules = [], CrawlDelay = 2 * Second\<rparr>)) = 2000000000"
  by (simp add: crawldelay_of_def Second_def)

subsection \<open>Links that robots.txt disallows\<close>

text \<open>
  When the guard of line 181 holds, the loop body issues no HTTP request and does not
  sleep; it stores one fetch result, for that link, with \<open>ExcludedByRobots\<close> true, and
  the loop goes on with the next link. With \<open>Disallow: /\<close> the guard holds for a link
  of the host.
\<close>

lemma robots_guard_excludes:
  assumes "rb = Some g" and "URL_ptr link = Some u" and "\<not> Test g (String w u)"
  shows "process_link w cfg rb delay i link =
           ([StoreURLFetchResults ((new_FetchResults link)\<lparr>ExcludedByRobots := True\<rparr>)], Next) \<and>
         requests_of (fst (process_link w cfg rb delay i link)) = [] \<and>
         sleeps (fst (process_link w cfg rb delay i link)) = [] \<and>
         crawl_links w cfg rb delay i (link # links) =
           (StoreURLFetchResults ((new_FetchResults link)\<lparr>ExcludedByRobots := True\<rparr>)
              # fst (crawl_links w cfg rb delay (Suc i) links),
            snd (crawl_links w cfg rb delay (Suc i) links))"
proof -
  have ex: "robots_excludes w rb link = Some True"
    using assms by (simp add: robots_excludes_def URL_String_def)
  have pl: "process_link w cfg rb delay i link =
      ([StoreURLFetchResults ((new_FetchResults link)\<lparr>ExcludedByRobots := True\<rparr>)], Next)"
    by (simp add: process_link_def ex)
  show ?thesis
    by (simp add: pl new_FetchResults_def split: prod.split)
qed

lemma ex_link_String:
  "URL_String ex_world (ex_link ''/private/y'') = Some ''http://test.com/private/y''"
  by (simp add: URL_String_def ex_link_def ex_world_def HasPrefix_def)

lemma root_rule_excludes:
  "robots_excludes ex_world (Some ex_root_group) (ex_link ''/private/y'') = Some True"
  by (simp add: robots_excludes_def ex_link_String Test_def ex_root_group_def)

text \<open>
  C4 asks that a link which the robots rules disallow is not requested and is stored with
  \<open>ExcludedByRobots\<close> true. The guard of line 181 gives \<open>Test\<close> the absolute URL
  (\<open>link.String()\<close>), while the rules are matched against the beginning of a path. With
  the rule \<open>Disallow: /private\<close>, the link \<open>http://test.com/private/y\<close> is disallowed
  by the rules, yet the guard is false: the loop body sleeps, requests the link, and the
  result it stores does not have \<open>ExcludedByRobots\<close> set.
\<close>

theorem robots_disallowed_link_requested:
  "spec_disallowed ex_group (ex_link ''/private/y'') \<and>
   robots_excludes ex_world (Some ex_group) (ex_link ''/private/y'') = Some False \<and>
   sleeps (fst (process_link ex_world ex_cfg (Some ex_group) Second 0 (ex_link ''/private/y'')))
     = [Second] \<and>
   requests_of (fst (process_link ex_world ex_cfg (Some ex_group) Second 0
                       (ex_link ''/private/y'')))
     = [''http://test.com/private/y''] \<and>
   map ExcludedByRobots
     (stored_results (fst (process_link ex_world ex_cfg (Some ex_group) Second 0
                             (ex_link ''/private/y''))))
     = [False]"
proof -
  have a: "spec_disallowed ex_group (ex_link ''/private/y'')"
    by (simp add: spec_disallowed_def ex_link_def RequestURI_def Test_def ex_group_def
          HasPrefix_def)
  have b: "robots_excludes ex_world (Some ex_group) (ex_link ''/private/y'') = Some False"
    by (simp add: robots_excludes_def ex_link_String Test_def ex_group_def HasPrefix_def)
  have c: "fetch ex_world ex_cfg (ex_link ''/private/y'') =
             Some ([HttpDo ''http://test.com/private/y'' ''Walker''], Inr ex_page)"
    by (simp add: fetch_def ex_link_String) (simp add: ex_world_def ex_cfg_def)
  have d: "isHTML (Some ex_page)" by (simp add: isHTML_def ex_page_def HasPrefix_def)
  have e: "ReadAll (Body ex_page) = (ex_body, None)" by (simp add: ReadAll_def ex_page_def)
  have f: "getLinks ex_world ex_cfg ex_body =
             Inr [\<lparr>URL_ptr = Some \<lparr>Scheme = [], Opaque = [], Host = [], Path = ''/n'',
                                    RawQuery = [], Fragment = []\<rparr>,
                   LastCrawled = NotYetCrawled\<rparr>]"
    by (simp add: getLinks_def ex_world_def ex_tokens_def ex_cfg_def getIncludedTags_def
          ParseURL_def ex_parse_def HasPrefix_def ex_body_def)
  have g: "URL_ptr (ex_link ''/private/y'') =
             Some \<lparr>Scheme = ''http'', Opaque = [], Host = ''test.com'', Path = ''/private/y'',
                    RawQuery = [], Fragment = []\<rparr>"
    by (simp add: ex_link_def)
  have pl: "sleeps (fst (process_link ex_world ex_cfg (Some ex_group) Second 0
                           (ex_link ''/private/y''))) = [Second] \<and>
            requests_of (fst (process_link ex_world ex_cfg (Some ex_group) Second 0
                                (ex_link ''/private/y''))) = [''http://test.com/private/y''] \<and>
            map ExcludedByRobots
              (stored_results (fst (process_link ex_world ex_cfg (Some ex_group) Second 0
                                      (ex_link ''/private/y'')))) = [False]"
    by (simp add: process_link_def b c d e f g Let_def new_FetchResults_def inherit_def)
  from a b pl show ?thesis by simp
qed

subsection \<open>Link extraction\<close>

lemma parseAnchorAttrs_spec:
  "parseAnchorAttrs parse attrs links =
     links @ concat (map (spec_parsed parse) (map snd (filter (\<lambda>a. fst a = ''href'') attrs)))"
proof (induction attrs arbitrary: links)
  case Nil
  then show ?case by simp
next
  case (Cons a attrs)
  obtain key val where a: "a = (key, val)" by (cases a)
  show ?case
  proof (cases "attrs = []")
    case True
    then show ?thesis
      by (simp add: a ParseURL_def spec_parsed_def split: sum.split)
  next
    case False
    then show ?thesis
      by (simp add: a Cons.IH ParseURL_def spec_parsed_def split: sum.split)
  qed
qed

lemma getLinks_loop_spec:
  "getLinks_loop parse tags ts links = links @ spec_links parse tags ts"
proof (induction parse tags ts links rule: getLinks_loop.induct)
  case (3 parse tags tagName attrs ts links)
  then show ?case
    by (auto simp: spec_links_def parseAnchorAttrs_spec)
qed (simp_all add: spec_links_def)

text \<open>
  C8. When the charset reader accepts the contents, \<open>getLinks\<close> returns exactly the
  successfully parsed \<open>href\<close> values of the start tags whose name is in the included
  set, in document order; the included set is the eight tag names minus \<open>IgnoreTags\<close>.
\<close>

theorem getLinks_spec:
  "getLinks w cfg contents =
     (case NewReader w contents of
        Inl err \<Rightarrow> Inl err
      | Inr r \<Rightarrow> Inr (spec_links (Parse w) (getIncludedTags cfg) (Tokens w r))) \<and>
   set (getIncludedTags cfg) =
     {''a'', ''area'', ''form'', ''frame'', ''iframe'', ''script'', ''link'', ''img''}
       - set (IgnoreTags cfg)"
proof -
  have "set (getIncludedTags cfg) =
     {''a'', ''area'', ''form'', ''frame'', ''iframe'', ''script'', ''link'', ''img''}
       - set (IgnoreTags cfg)"
    unfolding getIncludedTags_def by (simp only: set_filter) auto
  then show ?thesis
    by (simp add: getLinks_def getLinks_loop_spec split: sum.split)
qed

subsection \<open>Outlinks\<close>

lemma stored_outlinks_append: "stored_outlinks (a @ b) = stored_outlinks a @ stored_outlinks b"
  by (induction a rule: stored_outlinks.induct) simp_all

lemma stored_results_append: "stored_results (a @ b) = stored_results a @ stored_results b"
  by (induction a rule: stored_results.induct) simp_all

lemma fetch_events:
  assumes "fetch w cfg u = Some (reqs, r)"
  shows "stored_outlinks reqs = [] \<and> stored_results reqs = []"
  using assms by (auto simp: fetch_def split: option.splits sum.splits)

lemma store_outlinks_results: "stored_results (fst (store_outlinks link fr outlinks)) = []"
  by (induction outlinks) (auto split: option.splits prod.splits)

lemma inherit_spec:
  assumes "URL_ptr link = Some l" and "URL_ptr outlink \<noteq> None"
  shows "inherit link outlink = Some (spec_resolved l outlink)"
  using assms by (auto simp: inherit_def spec_resolved_def)

lemma store_outlinks_spec:
  assumes "URL_ptr link = Some l" and "\<forall>ol \<in> set outlinks. URL_ptr ol \<noteq> None"
  shows "store_outlinks link fr outlinks =
           (map (\<lambda>ol. StoreParsedURL (spec_resolved l ol) fr) outlinks, Next)"
  using assms by (induction outlinks) (simp_all add: inherit_spec)

lemma stored_outlinks_map:
  "stored_outlinks (map (\<lambda>ol. StoreParsedURL (f ol) fr) outlinks) = map f outlinks"
  by (induction outlinks) simp_all

lemma spec_links_nonnil: "ol \<in> set (spec_links parse tags ts) \<Longrightarrow> URL_ptr ol \<noteq> None"
  by (auto simp: spec_links_def spec_parsed_def split: sum.splits)

lemma getLinks_nonnil:
  assumes "getLinks w cfg body = Inr outlinks" and "ol \<in> set outlinks"
  shows "URL_ptr ol \<noteq> None"
  using assms
  by (auto simp: getLinks_def getLinks_loop_spec split: sum.splits dest: spec_links_nonnil)

text \<open>
  C7. For a page that is fetched, read and parsed as HTML, the URLs passed to
  \<open>StoreParsedURL\<close> are the extracted outlinks, in order, each with an empty scheme
  replaced by the scheme of the referring link and an empty host replaced by its host; an
  outlink whose scheme and host are both non-empty is passed as it is.
\<close>

theorem outlinks_inherit:
  assumes "robots_excludes w rb link = Some False"
    and "URL_ptr link = Some l"
    and "fetch w cfg link = Some (reqs, Inr res)"
    and "isHTML (Some res)"
    and "read_error (Body res) = None"
    and "getLinks w cfg (content (Body res)) = Inr outlinks"
  shows "stored_outlinks (fst (process_link w cfg rb delay i link)) =
           map (spec_resolved l) outlinks \<and>
         (\<forall>ol \<in> set outlinks. \<exists>ou. URL_ptr ol = Some ou \<and>
            (Scheme ou \<noteq> [] \<and> Host ou \<noteq> [] \<longrightarrow> spec_resolved l ol = ol))"
proof -
  have nn: "\<forall>ol \<in> set outlinks. URL_ptr ol \<noteq> None"
    using getLinks_nonnil [OF assms(6)] by blast
  have so: "store_outlinks link fr outlinks =
           (map (\<lambda>ol. StoreParsedURL (spec_resolved l ol) fr) outlinks, Next)" for fr
    by (rule store_outlinks_spec [OF assms(2) nn])
  have re: "stored_outlinks reqs = []"
    using fetch_events [OF assms(3)] by simp
  have first: "stored_outlinks (fst (process_link w cfg rb delay i link)) =
           map (spec_resolved l) outlinks"
    using assms(1,3,4,5,6)
    by (simp add: process_link_def ReadAll_def Let_def so re stored_outlinks_append
          stored_outlinks_map)
  have second: "\<exists>ou. URL_ptr ol = Some ou \<and>
            (Scheme ou \<noteq> [] \<and> Host ou \<noteq> [] \<longrightarrow> spec_resolved l ol = ol)"
    if "ol \<in> set outlinks" for ol
  proof -
    from nn that obtain ou where ou: "URL_ptr ol = Some ou" by auto
    then show ?thesis by (auto simp: spec_resolved_def)
  qed
  from first second show ?thesis by blast
qed


theorem outlinks_inherit_witness:
  "robots_excludes ex_world None (ex_link ''/a'') = Some False \<and>
   isHTML (Some ex_page) \<and> read_error (Body ex_page) = None \<and>
   stored_outlinks (fst (process_link ex_world ex_cfg None Second 0 (ex_link ''/a''))) =
     [ex_link ''/n''] \<and>
   spec_resolved \<lparr>Scheme = ''http'', Opaque = [], Host = ''test.com'', Path = ''/a'',
       RawQuery = [], Fragment = []\<rparr> (ex_link ''/n'') = ex_link ''/n''"
proof -
  let ?l = "\<lparr>Scheme = ''http'', Opaque = [], Host = ''test.com'', Path = ''/a'',
       RawQuery = [], Fragment = []\<rparr>"
  let ?o = "\<lparr>URL_ptr = Some \<lparr>Scheme = [], Opaque = [], Host = [], Path = ''/n'',
       RawQuery = [], Fragment = []\<rparr>, LastCrawled = NotYetCrawled\<rparr>"
  have a: "robots_excludes ex_world None (ex_link ''/a'') = Some False"
    by (simp add: robots_excludes_def)
  have b: "URL_ptr (ex_link ''/a'') = Some ?l" by (simp add: ex_link_def)
  have c: "fetch ex_world ex_cfg (ex_link ''/a'') =
             Some ([HttpDo ''http://test.com/a'' ''Walker''], Inr ex_page)"
    by (simp add: fetch_def URL_String_def ex_link_def ex_world_def ex_cfg_def HasPrefix_def)
  have d: "isHTML (Some ex_page)" by (simp add: isHTML_def ex_page_def HasPrefix_def)
  have e: "read_error (Body ex_page) = None" by (simp add: ex_page_def)
  have f: "getLinks ex_world ex_cfg (content (Body ex_page)) = Inr [?o]"
    by (simp add: getLinks_def ex_world_def ex_page_def ex_tokens_def ex_cfg_def
        getIncludedTags_def ParseURL_def ex_parse_def HasPrefix_def ex_body_def)
  have g: "spec_resolved ?l ?o = ex_link ''/n''"
    by (simp add: spec_resolved_def ex_link_def)
  have h: "spec_resolved ?l (ex_link ''/n'') = ex_link ''/n''"
    by (simp add: spec_resolved_def ex_link_def)
  from outlinks_inherit [OF a b c d e f, of Second 0] a d e g h show ?thesis by simp
qed

subsection \<open>A robots.txt that cannot be fetched or parsed\<close>

lemma store_outlinks_results':
  "store_outlinks link fr outlinks = (es, out) \<Longrightarrow> stored_results es = []"
  using store_outlinks_results [of link fr outlinks] by simp

lemma process_link_not_excluded:
  "fr \<in> set (stored_results (fst (process_link w cfg None delay i link))) \<Longrightarrow>
     \<not> ExcludedByRobots fr"
  by (auto simp: process_link_def robots_excludes_def new_FetchResults_def Let_def
        stored_results_append dest: fetch_events store_outlinks_results'
        split: option.splits sum.splits prod.splits outcome.splits if_splits)

lemma crawl_links_not_excluded:
  "fr \<in> set (stored_results (fst (crawl_links w cfg None delay i links))) \<Longrightarrow>
     \<not> ExcludedByRobots fr"
proof (induction links arbitrary: i)
  case Nil
  then show ?case by simp
next
  case (Cons link links)
  obtain es out where pl: "process_link w cfg None delay i link = (es, out)"
    by (cases "process_link w cfg None delay i link")
  obtain es' out' where cl: "crawl_links w cfg None delay (Suc i) links = (es', out')"
    by (cases "crawl_links w cfg None delay (Suc i) links")
  have a: "fr \<in> set (stored_results es) \<Longrightarrow> \<not> ExcludedByRobots fr"
    using process_link_not_excluded [of fr w cfg delay i link] by (simp add: pl)
  have b: "fr \<in> set (stored_results es') \<Longrightarrow> \<not> ExcludedByRobots fr"
    using Cons.IH [of "Suc i"] by (simp add: cl)
  from Cons.prems a b show ?case
    by (cases out) (auto simp: pl cl stored_results_append)
qed

lemma fetchRobots_events: "stored_results (fst (fetchRobots w cfg h)) = []"
  by (auto simp: fetchRobots_def Let_def dest: fetch_events split: option.splits sum.splits)

text \<open>
  C5. When the fetch of robots.txt fails (network error) or its response fails to parse, the
  fetcher has no robots group: every link is treated as allowed, and no fetch result stored
  while the host's links are walked has \<open>ExcludedByRobots\<close> set.
\<close>

theorem robots_failure_permissive:
  assumes "fetch w cfg (robots_url h) = Some (reqs, r)"
    and "(\<exists>err. r = Inl err) \<or> (\<exists>res err. r = Inr res \<and> FromResponse w res = Inl err)"
  shows "snd (fetchRobots w cfg h) = None \<and>
         robots_excludes w (snd (fetchRobots w cfg h)) link = Some False \<and>
         (\<forall>fr \<in> set (stored_results
                       (fst (crawl_links w cfg (snd (fetchRobots w cfg h)) delay i links))).
            \<not> ExcludedByRobots fr) \<and>
         (\<forall>fr \<in> set (stored_results (fst (start_body w cfg False h links f))).
            \<not> ExcludedByRobots fr)"
proof -
  have none: "snd (fetchRobots w cfg h) = None"
    using assms by (auto simp: fetchRobots_def Let_def)
  obtain rq where fr: "fetchRobots w cfg h = (rq, None)"
    using none by (cases "fetchRobots w cfg h") simp
  have rq: "stored_results rq = []"
    using fetchRobots_events [of w cfg h] by (simp add: fr)
  let ?d = "crawldelay_of (DefaultCrawlDelay cfg) None"
  obtain es out where cl: "crawl_links w cfg None ?d 0 links = (es, out)"
    by (cases "crawl_links w cfg None ?d 0 links")
  have es: "x \<in> set (stored_results es) \<Longrightarrow> \<not> ExcludedByRobots x" for x
    using crawl_links_not_excluded [of x w cfg ?d 0 links] by (simp add: cl)
  have sb: "\<not> ExcludedByRobots x"
    if "x \<in> set (stored_results (fst (start_body w cfg False h links f)))" for x
    using that es rq
    by (auto simp: start_body_def Let_def fr cl stored_results_append split: if_splits)
  show ?thesis
    using none sb by (auto simp: robots_excludes_def dest: crawl_links_not_excluded)
qed

theorem robots_failure_permissive_witness:
  "fetch ex_world ex_cfg (robots_url ''test.com'') =
     Some ([HttpDo ''http://test.com/robots.txt'' ''Walker''], Inl (Err ''connection refused'')) \<and>
   snd (fetchRobots ex_world ex_cfg ''test.com'') = None \<and>
   robots_excludes ex_world (snd (fetchRobots ex_world ex_cfg ''test.com''))
     (ex_link ''/private/y'') = Some False"
proof -
  have a: "fetch ex_world ex_cfg (robots_url ''test.com'') =
     Some ([HttpDo ''http://test.com/robots.txt'' ''Walker''], Inl (Err ''connection refused''))"
    by (simp add: fetch_def URL_String_def robots_url_def ex_world_def ex_cfg_def HasPrefix_def)
  have b: "(\<exists>err. (Inl (Err ''connection refused'') :: error + Response) = Inl err) \<or>
           (\<exists>res err. (Inl (Err ''connection refused'') :: error + Response) = Inr res \<and>
              FromResponse ex_world res = Inl err)"
    by simp
  from robots_failure_permissive [OF a b, of "ex_link ''/private/y''" Second 0 "[]"
      "\<lparr>host = [], robots = None, crawldelay = 0\<rparr>"] a
  show ?thesis by (simp add: robots_excludes_def)
qed

subsection \<open>The quit signal inside the loop over the links\<close>

lemma URL_String_ignores_quit: "URL_String (w\<lparr>quit := q\<rparr>) u = URL_String w u"
  by (simp add: URL_String_def)

lemma fetch_ignores_quit: "fetch (w\<lparr>quit := q\<rparr>) cfg u = fetch w cfg u"
  by (simp add: fetch_def URL_String_ignores_quit split: option.split sum.split)

lemma getLinks_ignores_quit: "getLinks (w\<lparr>quit := q\<rparr>) cfg b = getLinks w cfg b"
  by (simp add: getLinks_def split: sum.split)

lemma robots_excludes_ignores_quit:
  "robots_excludes (w\<lparr>quit := q\<rparr>) rb link = robots_excludes w rb link"
  by (simp add: robots_excludes_def URL_String_ignores_quit split: option.split)

lemma process_link_ignores_quit:
  "process_link (w\<lparr>quit := q\<rparr>) cfg rb delay i link = process_link w cfg rb delay i link"
  by (simp add: process_link_def fetch_ignores_quit getLinks_ignores_quit
        robots_excludes_ignores_quit Let_def
        split: option.split sum.split prod.split bool.split outcome.split)

lemma crawl_links_ignores_quit:
  "crawl_links (w\<lparr>quit := q\<rparr>) cfg rb delay i links = crawl_links w cfg rb delay i links"
  by (induction links arbitrary: i) (simp_all add: process_link_ignores_quit)

text \<open>
  C2 asks that once the quit signal is pending no further link of the segment is fetched.
  The loop body never reads the quit channel (the lemmas above: its result does not depend
  on it). With the signal pending from the first link on, both links of a two-link segment
  are still requested.
\<close>

theorem fetches_after_quit:
  "quit ex_world 0 \<and> quit ex_world 1 \<and>
   requests_of (fst (crawl_links ex_world ex_cfg None Second 0 [ex_link ''/a'', ex_link ''/b'']))
     = [''http://test.com/a'', ''http://test.com/b'']"
  by (simp add: process_link_def robots_excludes_def fetch_def URL_String_def ex_link_def ex_world_def ex_cfg_def HasPrefix_def
     isHTML_def ex_page_def ReadAll_def getLinks_def ex_tokens_def getIncludedTags_def ParseURL_def ex_parse_def ex_body_def
    inherit_def NopCloser_def new_FetchResults_def Let_def)

subsection \<open>The size of the body that is read\<close>

text \<open>
  C3 asks that at most \<open>MaxHTTPContentSizeBytes\<close> bytes of an HTML body be read and
  that the truncated prefix be what is parsed and delivered. The body is read with
  \<open>ReadAll\<close>: with a cap of 16 bytes and a body of 36, the handler is given all 36 bytes
  and the link found beyond the 16th byte is stored, although the first 16 bytes hold no
  link.
\<close>

theorem body_read_beyond_cap:
  "MaxHTTPContentSizeBytes ex_cfg = 16 \<and> int (length ex_body) = 36 \<and>
   map delivered_bytes (handled (fst (process_link ex_world ex_cfg None Second 0 (ex_link ''/a''))))
     = [ex_body] \<and>
   Tokens ex_world (take 16 ex_body) = [ErrorToken] \<and>
   stored_outlinks (fst (process_link ex_world ex_cfg None Second 0 (ex_link ''/a'')))
     = [ex_link ''/n'']"
  by (simp add: process_link_def robots_excludes_def fetch_def URL_String_def ex_link_def ex_world_def ex_cfg_def HasPrefix_def
     isHTML_def ex_page_def ReadAll_def getLinks_def ex_tokens_def getIncludedTags_def ParseURL_def ex_parse_def ex_body_def
    inherit_def NopCloser_def new_FetchResults_def Let_def delivered_bytes_def NotYetCrawled_def)

subsection \<open>Config loading\<close>

lemma parse_failure_Nil: "(parse_failure name r = []) = (\<exists>d. r = Inr d)"
  by (cases r) (simp_all add: parse_failure_def)

lemma regex_failure_Nil: "(regex_failure r = []) = (r = None)"
  by (cases r) (simp_all add: regex_failure_def)

lemma parses_iff: "parses env s = (\<exists>d. ParseDuration env s = Inr d)"
  by (cases "ParseDuration env s") (simp_all add: parses_def)

lemma refresh_check:
  "x \<noteq> NaN \<Longrightarrow> (\<not> (f64_less x (Finite 0) \<or> f64_less (Finite 100) x)) = within_0_100 x"
  by (cases x) auto

lemma if_singleton_Nil: "((if c then [m] else []) = []) = (\<not> c)"
  by simp

lemma config_errs_Nil:
  assumes "RefreshPercentage (WalkerConfig.Dispatcher c) \<noteq> NaN"
  shows "(config_errs env c = []) = spec_invariants env c"
  unfolding config_errs_def spec_invariants_def Let_def
  using refresh_check [OF assms]
  by (simp add: parse_failure_Nil regex_failure_Nil parses_iff if_singleton_Nil not_less
        del: if_split split del: if_split) (auto simp: not_less)

lemma assert_None: "(assertConfigInvariants env c = None) = (config_errs env c = [])"
  by (simp add: assertConfigInvariants_def Let_def)


text \<open>
  C6, as the code has it. \<open>assertConfigInvariants\<close> returns nil exactly when the listed
  invariants hold, for a refresh percentage that is not NaN. When \<open>readConfig\<close> returns,
  it returns an error exactly when the config file cannot be read, the YAML cannot be
  decoded, or an invariant is violated in the resulting \<open>Config\<close>; when it returns nil,
  all the invariants hold of the resulting \<open>Config\<close>.
\<close>

theorem config_error_iff:
  assumes "readConfig env = Loaded c err"
    and "RefreshPercentage (WalkerConfig.Dispatcher c) \<noteq> NaN"
  shows "(assertConfigInvariants env c = None) = spec_invariants env c \<and>
         (err \<noteq> None) =
           ((\<exists>e. ReadFile env (ConfigName env) = Inl e) \<or>
            (\<exists>data e. ReadFile env (ConfigName env) = Inr data \<and>
               snd (Unmarshal env data cleared_Config) = Some e) \<or>
            \<not> spec_invariants env c) \<and>
         (err = None \<longrightarrow> spec_invariants env c)"
proof -
  have inv: "(assertConfigInvariants env c = None) = spec_invariants env c"
    by (simp add: assert_None config_errs_Nil [OF assms(2)])
  show ?thesis
  proof (cases "ReadFile env (ConfigName env)")
    case (Inl e)
    with assms(1) inv show ?thesis
      by (auto simp: readConfig_def Let_def)
  next
    case (Inr data)
    obtain c1 r where um: "Unmarshal env data cleared_Config = (c1, r)"
      by (cases "Unmarshal env data cleared_Config")
    show ?thesis
    proof (cases r)
      case None
      with assms(1) Inr um have "err = assertConfigInvariants env c"
        by (auto simp: readConfig_def Let_def split: option.splits)
      with Inr um None inv show ?thesis by auto
    next
      case (Some e)
      with assms(1) Inr um inv show ?thesis
        by (auto simp: readConfig_def Let_def)
    qed
  qed
qed


lemma cleared_fields:
  "WalkerConfig.Dispatcher cleared_Config =
     \<lparr>MaxLinksPerSegment = 500, RefreshPercentage = Finite 25,
      NumConcurrentDomains = 1, MinLinkRefreshTime = ''0s''\<rparr>"
  "HttpTimeout cleared_Config = ''30s''"
  "Timeout (Cassandra cleared_Config) = ''2s''"
  "ExcludeLinkPatterns cleared_Config = []"
  "IncludeLinkPatterns cleared_Config = []"
  "WalkerConfig.DefaultCrawlDelay cleared_Config = ''1s''"
  "WalkerConfig.MaxCrawlDelay cleared_Config = ''5m''"
  by (simp_all add: cleared_Config_def SetDefaultConfig_def default_Cassandra_def Let_def)


lemma refill_fields:
  "WalkerConfig.Dispatcher (refill_sequences c) = WalkerConfig.Dispatcher c"
  "HttpTimeout (refill_sequences c) = HttpTimeout c"
  "Timeout (Cassandra (refill_sequences c)) = Timeout (Cassandra c)"
  "ExcludeLinkPatterns (refill_sequences c) = ExcludeLinkPatterns c"
  "IncludeLinkPatterns (refill_sequences c) = IncludeLinkPatterns c"
  "WalkerConfig.DefaultCrawlDelay (refill_sequences c) = WalkerConfig.DefaultCrawlDelay c"
  "WalkerConfig.MaxCrawlDelay (refill_sequences c) = WalkerConfig.MaxCrawlDelay c"
  by (simp_all add: refill_sequences_def Let_def)

lemma ex_durations:
  "ex_ParseDuration ''0s'' = Inr 0"
  "ex_ParseDuration ''1s'' = Inr 1000000000"
  "ex_ParseDuration ''2s'' = Inr 2000000000"
  "ex_ParseDuration ''30s'' = Inr 30000000000"
  "ex_ParseDuration ''5m'' = Inr 300000000000"
  by (simp_all add: ex_ParseDuration_def)

lemma ex_env_fields:
  "ParseDuration ex_env = ex_ParseDuration"
  "aggregateRegex ex_env ps name = None"
  "setupParseURL ex_env c = None"
  "ConfigName ex_env = ''walker.yaml''"
  "ReadFile ex_env p = Inl (Err (''open '' @ p @ '': no such file or directory''))"
  by (simp_all add: ex_env_def)

lemma ex_file_env_fields:
  "ParseDuration ex_file_env = ex_ParseDuration"
  "aggregateRegex ex_file_env ps name = None"
  "setupParseURL ex_file_env c = None"
  "ReadFile ex_file_env p = Inr ''dispatcher: {refresh_percentage: 50}''"
  "Unmarshal ex_file_env data c =
     (c\<lparr>Dispatcher := (WalkerConfig.Dispatcher c)\<lparr>RefreshPercentage := Finite 50\<rparr>\<rparr>, None)"
  by (simp_all add: ex_file_env_def ex_env_def)

lemma ex_env_cleared_invariants: "spec_invariants ex_env cleared_Config"
  by (simp add: spec_invariants_def parses_def duration_of_def cleared_fields ex_env_fields
        ex_durations)

lemma ex_env_load:
  "load_error (readConfig ex_env) \<noteq> None \<and> load_Config (readConfig ex_env) = cleared_Config"
  by (simp add: readConfig_def Let_def ex_env_fields)

lemma nan_fields:
  "WalkerConfig.Dispatcher nan_Config =
     \<lparr>MaxLinksPerSegment = 500, RefreshPercentage = NaN,
      NumConcurrentDomains = 1, MinLinkRefreshTime = ''0s''\<rparr>"
  "HttpTimeout nan_Config = ''30s''"
  "Timeout (Cassandra nan_Config) = ''2s''"
  "ExcludeLinkPatterns nan_Config = []"
  "IncludeLinkPatterns nan_Config = []"
  "WalkerConfig.DefaultCrawlDelay nan_Config = ''1s''"
  "WalkerConfig.MaxCrawlDelay nan_Config = ''5m''"
  by (simp_all add: nan_Config_def SetDefaultConfig_def default_Cassandra_def)

text \<open>
  Without a config file, loading returns an error although the resulting \<open>Config\<close> (the
  defaults) satisfies every invariant; and a refresh percentage of NaN passes both
  comparisons of the check although it is not within 0 and 100.
\<close>

theorem config_error_without_violation:
  "load_error (readConfig ex_env) \<noteq> None \<and>
   spec_invariants ex_env (load_Config (readConfig ex_env)) \<and>
   assertConfigInvariants ex_env nan_Config = None \<and>
   \<not> spec_invariants ex_env nan_Config"
proof -
  have a: "assertConfigInvariants ex_env nan_Config = None"
    by (simp add: assertConfigInvariants_def config_errs_def Let_def nan_fields ex_env_fields
          ex_durations parse_failure_def regex_failure_def duration_of_def)
  have b: "\<not> spec_invariants ex_env nan_Config"
    by (simp add: spec_invariants_def nan_fields)
  from a b ex_env_load ex_env_cleared_invariants show ?thesis by simp
qed

lemma ex_file_load:
  "readConfig ex_file_env =
     Loaded (refill_sequences (cleared_Config\<lparr>Dispatcher :=
               (WalkerConfig.Dispatcher cleared_Config)\<lparr>RefreshPercentage := Finite 50\<rparr>\<rparr>)) None"
  by (simp add: readConfig_def Let_def ex_file_env_fields assertConfigInvariants_def
        config_errs_def refill_fields cleared_fields ex_durations parse_failure_def
        regex_failure_def duration_of_def)

theorem config_error_iff_witness:
  "readConfig ex_file_env = Loaded (load_Config (readConfig ex_file_env)) None \<and>
   RefreshPercentage (WalkerConfig.Dispatcher (load_Config (readConfig ex_file_env))) = Finite 50 \<and>
   assertConfigInvariants ex_file_env (load_Config (readConfig ex_file_env)) = None \<and>
   spec_invariants ex_file_env (load_Config (readConfig ex_file_env))"
proof -
  have a: "readConfig ex_file_env = Loaded (load_Config (readConfig ex_file_env)) None"
    by (simp add: ex_file_load)
  have b: "RefreshPercentage (WalkerConfig.Dispatcher (load_Config (readConfig ex_file_env))) = Finite 50"
    by (simp add: ex_file_load refill_fields)
  have c: "RefreshPercentage (WalkerConfig.Dispatcher (load_Config (readConfig ex_file_env))) \<noteq> NaN"
    by (simp add: b)
  from config_error_iff [OF a c] a b show ?thesis by simp
qed

subsection \<open>Domains with nothing to dispatch\<close>

lemma select_segment_subset: "set (select_segment S rp T_min now rows) \<subseteq> set rows"
proof -
  have a: "set (getnow_pool rows) \<subseteq> set rows" by (auto simp: getnow_pool_def)
  have b: "set (refreshable_pool T_min now rows) \<subseteq> set rows"
    by (auto simp: refreshable_pool_def)
  have c: "set (uncrawled_pool rows) \<subseteq> set rows" by (auto simp: uncrawled_pool_def)
  have t: "set (take n xs) \<subseteq> set rows" if "set xs \<subseteq> set rows" for n and xs :: "link_row list"
    using that set_take_subset [of n xs] by blast
  have "set (take S (take S (getnow_pool rows) @ take m (refreshable_pool T_min now rows)
               @ take k (uncrawled_pool rows))) \<subseteq> set rows" for m k
  proof (rule t)
    show "set (take S (getnow_pool rows) @ take m (refreshable_pool T_min now rows)
               @ take k (uncrawled_pool rows)) \<subseteq> set rows"
      using t [OF a, of S] t [OF b, of m] t [OF c, of k] by simp
  qed
  then show ?thesis
    unfolding select_segment_def Let_def by blast
qed

lemma select_segment_no_rows: "select_segment S rp T_min now [] = []"
  by (simp add: select_segment_def getnow_pool_def refreshable_pool_def uncrawled_pool_def)

lemma select_segment_young:
  assumes "\<forall>l \<in> set rows. \<not> l_getnow l \<and> l_crawl_time l \<noteq> NotYetCrawled
             \<and> now - l_crawl_time l < T_min"
  shows "select_segment S rp T_min now rows = []"
proof -
  have a: "getnow_pool rows = []" using assms by (auto simp: getnow_pool_def filter_empty_conv)
  have b: "filter (\<lambda>l. \<not> l_getnow l \<and> l_crawl_time l \<noteq> NotYetCrawled
                      \<and> T_min \<le> now - l_crawl_time l) rows = []"
    using assms by (auto simp: filter_empty_conv)
  have c: "filter (\<lambda>l. \<not> l_getnow l \<and> l_crawl_time l = NotYetCrawled) rows = []"
    using assms by (auto simp: filter_empty_conv)
  show ?thesis
    by (simp add: select_segment_def a refreshable_pool_def uncrawled_pool_def b c)
qed

lemma domain_rows_dom: "l \<in> set (domain_rows D rows) \<Longrightarrow> l_dom l = D"
  by (simp add: domain_rows_def)

lemma dispatch_domain_dom: "di_dom (fst (dispatch_domain S rp T_min now rows d)) = di_dom d"
  by (simp add: dispatch_domain_def Let_def)

lemma dispatch_domain_rows:
  "s \<in> set (snd (dispatch_domain S rp T_min now rows d)) \<Longrightarrow> seg_dom s = di_dom d"
proof -
  assume "s \<in> set (snd (dispatch_domain S rp T_min now rows d))"
  then obtain l where l: "l \<in> set (select_segment S rp T_min now (domain_rows (di_dom d) rows))"
    and s: "s = segment_of l"
    by (auto simp: dispatch_domain_def Let_def split: if_splits)
  from l select_segment_subset have "l \<in> set (domain_rows (di_dom d) rows)" by blast
  then show ?thesis using s by (simp add: segment_of_def domain_rows_dom)
qed

lemma dispatch_domain_empty:
  assumes "\<not> dispatched d"
    and "select_segment S rp T_min now (domain_rows (di_dom d) rows) = []"
  shows "snd (dispatch_domain S rp T_min now rows d) = [] \<and>
         \<not> dispatched (fst (dispatch_domain S rp T_min now rows d))"
  using assms by (simp add: dispatch_domain_def Let_def)


text \<open>
  C9. In a store whose domains have distinct names, for a domain that is not dispatched and
  whose computed segment is empty (in particular a domain with no links, or with only
  crawled links younger than the minimum refresh time and none marked getnow), a dispatch
  cycle writes no segment row for that domain and leaves its \<open>dispatched\<close> flag false.
\<close>

theorem empty_segment_not_dispatched:
  assumes "d \<in> set (domain_info_tbl st)"
    and "\<not> dispatched d"
    and "distinct (map di_dom (domain_info_tbl st))"
    and "select_segment S rp T_min now (domain_rows (di_dom d) (links_tbl st)) = []
         \<or> domain_rows (di_dom d) (links_tbl st) = []
         \<or> (\<forall>l \<in> set (domain_rows (di_dom d) (links_tbl st)).
               \<not> l_getnow l \<and> l_crawl_time l \<noteq> NotYetCrawled \<and> now - l_crawl_time l < T_min)"
  shows "segment_rows_of (di_dom d) (dispatch_cycle S rp T_min now st)
           = segment_rows_of (di_dom d) st \<and>
         (\<forall>d' \<in> set (domain_info_tbl (dispatch_cycle S rp T_min now st)).
            di_dom d' = di_dom d \<longrightarrow> \<not> dispatched d')"
proof -
  let ?f = "dispatch_domain S rp T_min now (links_tbl st)"
  have empty: "select_segment S rp T_min now (domain_rows (di_dom d) (links_tbl st)) = []"
    using assms(4) select_segment_no_rows select_segment_young by metis
  have de: "snd (?f d) = [] \<and> \<not> dispatched (fst (?f d))"
    by (rule dispatch_domain_empty [OF assms(2) empty])
  have same: "x = d" if "x \<in> set (domain_info_tbl st)" and "di_dom x = di_dom d" for x
    using that assms(1,3) by (meson distinct_map inj_onD)
  have written: "filter (\<lambda>s. seg_dom s = di_dom d) (snd (?f x)) = []"
    if "x \<in> set (domain_info_tbl st)" for x
  proof (cases "di_dom x = di_dom d")
    case True
    then have "x = d" using that same by blast
    then show ?thesis using de by simp
  next
    case False
    then show ?thesis
      using dispatch_domain_rows [of _ S rp T_min now "links_tbl st" x]
      by (auto simp: filter_empty_conv)
  qed
  have "filter (\<lambda>s. seg_dom s = di_dom d) (concat (map snd (map ?f xs))) = []"
    if "set xs \<subseteq> set (domain_info_tbl st)" for xs
    using that by (induction xs) (simp_all add: written)
  then have segs: "filter (\<lambda>s. seg_dom s = di_dom d)
                     (concat (map snd (map ?f (domain_info_tbl st)))) = []"
    by simp
  have flag: "\<not> dispatched d'"
    if "d' \<in> set (map fst (map ?f (domain_info_tbl st)))" and "di_dom d' = di_dom d" for d'
  proof -
    from that(1) obtain x where x: "x \<in> set (domain_info_tbl st)" and d': "d' = fst (?f x)"
      by auto
    from d' that(2) have "di_dom x = di_dom d" by (simp add: dispatch_domain_dom)
    with x same have "x = d" by blast
    with d' de show ?thesis by simp
  qed
  show ?thesis
    using segs flag
    by (simp add: segment_rows_of_def dispatch_cycle_def Let_def)
qed


lemma ex_store_rows:
  "domain_rows ''test.com'' (links_tbl ex_store) =
     [\<lparr>l_dom = ''test.com'', l_subdom = [], l_path = ''/'', l_proto = ''http'',
       l_crawl_time = 100000, l_status = 200, l_getnow = False\<rparr>]"
  by (simp add: domain_rows_def ex_store_def same_url_def)

theorem empty_segment_not_dispatched_witness:
  "ex_info ''test.com'' \<in> set (domain_info_tbl ex_store) \<and>
   \<not> dispatched (ex_info ''test.com'') \<and>
   distinct (map di_dom (domain_info_tbl ex_store)) \<and>
   domain_rows ''test.com'' (links_tbl ex_store) \<noteq> [] \<and>
   segment_rows_of ''test.com'' (dispatch_cycle 500 25 3600000 200000 ex_store) = []"
proof -
  have a: "ex_info ''test.com'' \<in> set (domain_info_tbl ex_store)"
    by (simp add: ex_store_def)
  have b: "\<not> dispatched (ex_info ''test.com'')" by (simp add: ex_info_def)
  have c: "distinct (map di_dom (domain_info_tbl ex_store))"
    by (simp add: ex_store_def ex_info_def)
  have n: "di_dom (ex_info ''test.com'') = ''test.com''" by (simp add: ex_info_def)
  have d: "select_segment 500 25 3600000 200000
             (domain_rows (di_dom (ex_info ''test.com'')) (links_tbl ex_store)) = []
         \<or> domain_rows (di_dom (ex_info ''test.com'')) (links_tbl ex_store) = []
         \<or> (\<forall>l \<in> set (domain_rows (di_dom (ex_info ''test.com'')) (links_tbl ex_store)).
               \<not> l_getnow l \<and> l_crawl_time l \<noteq> NotYetCrawled
               \<and> 200000 - l_crawl_time l < 3600000)"
    by (simp add: n ex_store_rows NotYetCrawled_def)
  have e: "segment_rows_of ''test.com'' ex_store = []"
    by (simp add: segment_rows_of_def ex_store_def)
  from empty_segment_not_dispatched [OF a b c d] a b c e show ?thesis
    by (simp add: n ex_store_rows)
qed

end
